theory Spec2Isabelle
  imports Main
begin

section \<open>pkg/otlp/model/translator/consumer.go\<close>

subsection \<open>MetricDataType and its text codec\<close>

text \<open>
  \<^verbatim>\<open>type MetricDataType int\<close>: a named integer type. Any integer ordinal is a value
  of it; no arithmetic is performed on it, so the ordinal is kept as an \<^typ>\<open>int\<close>
  (every machine \<^verbatim>\<open>int\<close> is one of these).
\<close>

type_synonym MetricDataType = int

text \<open>
  \<^verbatim>\<open>const ( Gauge MetricDataType = iota; Count )\<close>: \<^verbatim>\<open>iota\<close> numbers the constants of
  the block from 0.
\<close>

definition Gauge :: MetricDataType where
  "Gauge = 0"

definition Count :: MetricDataType where
  "Count = 1"

text \<open>
  The errors of the file are built by \<^verbatim>\<open>fmt.Errorf(format, arg)\<close>. The value keeps the
  format string and the argument as passed (\<^verbatim>\<open>%q\<close> receives the byte slice,
  \<^verbatim>\<open>%d\<close> the ordinal); the rendering of the message is left to \<^verbatim>\<open>fmt\<close>.
\<close>

datatype fmt_arg = Q string | D int

datatype error = Errorf string fmt_arg

text \<open>
  \<^verbatim>\<open>func (t *MetricDataType) UnmarshalText(text []byte) error\<close>. The receiver is a
  pointer: the function takes the value stored at \<^verbatim>\<open>t\<close> before the call and returns
  the value stored there after it, next to the returned error (\<^verbatim>\<open>nil\<close> is
  \<^const>\<open>None\<close>). The \<^verbatim>\<open>default\<close> branch returns before any assignment.
\<close>

definition UnmarshalText :: "MetricDataType \<Rightarrow> string \<Rightarrow> MetricDataType \<times> error option" where
  "UnmarshalText t text =
     (if text = ''gauge'' then (Gauge, None)
      else if text = ''count'' then (Count, None)
      else (t, Some (Errorf ''invalid metric data type %q'' (Q text))))"

text \<open>
  \<^verbatim>\<open>func (t MetricDataType) MarshalText() ([]byte, error)\<close>: the switch has no default
  branch; an ordinal matching no case falls through to the final
  \<^verbatim>\<open>return nil, fmt.Errorf(...)\<close>.
\<close>

definition MarshalText :: "MetricDataType \<Rightarrow> error + string" where
  "MarshalText t =
     (if t = Gauge then Inr ''gauge''
      else if t = Count then Inr ''count''
      else Inl (Errorf ''invalid metric data type %d'' (D t)))"

subsection \<open>Consumer interfaces\<close>

text \<open>
  The parameter types that occur in the method signatures of the file.
\<close>

datatype go_type =
    Context
  | DimensionsPtr
  | MetricDataTypeT
  | Uint64
  | Float64
  | SketchPtr
  | ClientStatsPayload
  | String

text \<open>
  A method specification: its name and its parameter types (no method of the file
  returns a result).
\<close>

datatype method_spec = Method string "go_type list"

text \<open>
  An interface type lists method specifications and embedded interfaces.
\<close>

datatype interface = Interface "method_spec list" "interface list"

text \<open>
  The method set of an interface: its own methods and those of every interface it embeds.
\<close>

fun method_set :: "interface \<Rightarrow> method_spec set" where
  "method_set (Interface ms es) = set ms \<union> (\<Union>e \<in> set es. method_set e)"

text \<open>
  A type, given by its method set \<open>T\<close>, implements an interface when \<open>T\<close> holds every
  method of the interface.
\<close>

definition implements :: "method_spec set \<Rightarrow> interface \<Rightarrow> bool" where
  "implements T I = (method_set I \<subseteq> T)"

definition ConsumeTimeSeries :: method_spec where
  "ConsumeTimeSeries =
     Method ''ConsumeTimeSeries'' [Context, DimensionsPtr, MetricDataTypeT, Uint64, Float64]"

definition ConsumeSketch :: method_spec where
  "ConsumeSketch = Method ''ConsumeSketch'' [Context, DimensionsPtr, Uint64, SketchPtr]"

definition ConsumeAPMStats :: method_spec where
  "ConsumeAPMStats = Method ''ConsumeAPMStats'' [ClientStatsPayload]"

definition ConsumeHost :: method_spec where
  "ConsumeHost = Method ''ConsumeHost'' [String]"

definition ConsumeTag :: method_spec where
  "ConsumeTag = Method ''ConsumeTag'' [String]"

definition TimeSeriesConsumer :: interface where
  "TimeSeriesConsumer = Interface [ConsumeTimeSeries] []"

definition SketchConsumer :: interface where
  "SketchConsumer = Interface [ConsumeSketch] []"

definition APMStatsConsumer :: interface where
  "APMStatsConsumer = Interface [ConsumeAPMStats] []"

definition Consumer :: interface where
  "Consumer = Interface [] [TimeSeriesConsumer, SketchConsumer, APMStatsConsumer]"

definition HostConsumer :: interface where
  "HostConsumer = Interface [ConsumeHost] []"

definition TagsConsumer :: interface where
  "TagsConsumer = Interface [ConsumeTag] []"

section \<open>pkg/workloadmeta/collectors/internal/containerd/image\_sbom\_stub.go\<close>

text \<open>
  \<^verbatim>\<open>func (c *collector) startSBOMCollection() error { return nil }\<close>, built under
  \<^verbatim>\<open>containerd && !trivy\<close>. The collector struct is declared elsewhere, so its state
  is a type parameter; the function returns the state after the call and the error.
\<close>

definition startSBOMCollection :: "'collector \<Rightarrow> 'collector \<times> error option" where
  "startSBOMCollection c = (c, None)"

section \<open>Properties of the codec\<close>

text \<open>
  C2. Encoding maps Gauge to the text "gauge" and Count to the text "count" with no
  error; decoding maps the text "gauge" to Gauge and the text "count" to Count with a
  nil error, whatever the receiver held before.
\<close>

theorem codec_table:
  "MarshalText Gauge = Inr ''gauge''
   \<and> MarshalText Count = Inr ''count''
   \<and> UnmarshalText t ''gauge'' = (Gauge, None)
   \<and> UnmarshalText t ''count'' = (Count, None)"
  by (simp add: MarshalText_def UnmarshalText_def Gauge_def Count_def)

text \<open>
  C1. Encoding and decoding are mutual inverses over the two declared variants: for
  \<open>v\<close> among Gauge and Count, encoding \<open>v\<close> succeeds and decoding the produced text
  stores \<open>v\<close> with a nil error; for \<open>s\<close> among "gauge" and "count", decoding \<open>s\<close>
  succeeds and encoding the stored value gives \<open>s\<close> back.
\<close>

theorem marshal_unmarshal_inverse:
  "(v \<in> {Gauge, Count} \<longrightarrow>
      (\<exists>b. MarshalText v = Inr b \<and> UnmarshalText t b = (v, None)))
   \<and> (s \<in> {''gauge'', ''count''} \<longrightarrow>
      (\<exists>v. UnmarshalText t s = (v, None) \<and> MarshalText v = Inr s))"
  by (auto simp add: MarshalText_def UnmarshalText_def Gauge_def Count_def)

theorem marshal_unmarshal_inverse_witness:
  "Count \<in> {Gauge, Count}
   \<and> (\<exists>b. MarshalText Count = Inr b \<and> UnmarshalText Gauge b = (Count, None))
   \<and> ''count'' \<in> {''gauge'', ''count''}
   \<and> (\<exists>v. UnmarshalText Gauge ''count'' = (v, None) \<and> MarshalText v = Inr ''count'')"
  using marshal_unmarshal_inverse [of Count Gauge "''count''"] by simp

text \<open>
  C3. Decoding fails with the invalid-metric-data-type error on every text other than
  exactly "gauge" and "count"; the comparison is on the bytes as given, so "GAUGE" fails.
\<close>

theorem unmarshal_rejects_other_tokens:
  "(text \<notin> {''gauge'', ''count''} \<longrightarrow>
      UnmarshalText t text = (t, Some (Errorf ''invalid metric data type %q'' (Q text))))
   \<and> UnmarshalText t ''GAUGE''
       = (t, Some (Errorf ''invalid metric data type %q'' (Q ''GAUGE'')))"
  by (simp add: UnmarshalText_def)

theorem unmarshal_rejects_other_tokens_witness:
  "''Count'' \<notin> {''gauge'', ''count''}
   \<and> UnmarshalText Count ''Count''
       = (Count, Some (Errorf ''invalid metric data type %q'' (Q ''Count'')))"
  using unmarshal_rejects_other_tokens [of "''Count''" Count] by simp

text \<open>
  C4. Encoding fails with the invalid-metric-data-type error on every ordinal other than
  Gauge and Count; ordinal 99 is one of them.
\<close>

theorem marshal_rejects_other_ordinals:
  "(t \<notin> {Gauge, Count} \<longrightarrow>
      MarshalText t = Inl (Errorf ''invalid metric data type %d'' (D t)))
   \<and> MarshalText 99 = Inl (Errorf ''invalid metric data type %d'' (D 99))"
  by (simp add: MarshalText_def Gauge_def Count_def)

theorem marshal_rejects_other_ordinals_witness:
  "(-1) \<notin> {Gauge, Count}
   \<and> MarshalText (-1) = Inl (Errorf ''invalid metric data type %d'' (D (-1)))"
  using marshal_rejects_other_ordinals [of "-1"] by (simp add: Gauge_def Count_def)

text \<open>
  C5. The two directions agree on the tokens: decoding a text succeeds exactly when the
  text is what encoding produces for Gauge or for Count.
\<close>

theorem accepted_tokens_are_produced_tokens:
  "(snd (UnmarshalText t s) = None) = (\<exists>v \<in> {Gauge, Count}. MarshalText v = Inr s)"
  by (auto simp add: MarshalText_def UnmarshalText_def Gauge_def Count_def)

theorem accepted_tokens_are_produced_tokens_witness:
  "snd (UnmarshalText Gauge ''count'') = None
   \<and> (\<exists>v \<in> {Gauge, Count}. MarshalText v = Inr ''count'')
   \<and> snd (UnmarshalText Gauge ''COUNT'') \<noteq> None
   \<and> \<not> (\<exists>v \<in> {Gauge, Count}. MarshalText v = Inr ''COUNT'')"
  using accepted_tokens_are_produced_tokens [of Gauge "''count''"]
    accepted_tokens_are_produced_tokens [of Gauge "''COUNT''"]
  by (simp add: UnmarshalText_def)

text \<open>
  C6, as stated, does not hold: the type is an integer type, and the ordinal 99 is a
  value of it that is neither Gauge nor Count. The encoder has a branch for such values.
\<close>

theorem ordinal_outside_variants:
  "(99 :: MetricDataType) \<noteq> Gauge \<and> (99 :: MetricDataType) \<noteq> Count
   \<and> MarshalText 99 = Inl (Errorf ''invalid metric data type %d'' (D 99))"
  by (simp add: MarshalText_def Gauge_def Count_def)

text \<open>
  C6, amended. Gauge and Count are the only valid ordinals of the type: the only ones
  that encoding accepts, and the only ones a successful decoding stores. Other ordinals
  are values of the type, and encoding rejects them.
\<close>

theorem valid_ordinals:
  "((\<exists>b. MarshalText t = Inr b) = (t = Gauge \<or> t = Count))
   \<and> (snd (UnmarshalText t0 s) = None \<longrightarrow>
        fst (UnmarshalText t0 s) = Gauge \<or> fst (UnmarshalText t0 s) = Count)"
  by (simp add: MarshalText_def UnmarshalText_def)

theorem valid_ordinals_witness:
  "(\<exists>b. MarshalText Count = Inr b) \<and> (Count = Gauge \<or> Count = Count)
   \<and> \<not> (\<exists>b. MarshalText 7 = Inr b) \<and> \<not> (7 = Gauge \<or> 7 = Count)
   \<and> snd (UnmarshalText 7 ''gauge'') = None
   \<and> (fst (UnmarshalText 7 ''gauge'') = Gauge \<or> fst (UnmarshalText 7 ''gauge'') = Count)"
  using valid_ordinals [of Count 7 "''gauge''"] valid_ordinals [of 7 7 "''gauge''"]
  by (simp add: UnmarshalText_def Gauge_def Count_def)

text \<open>
  C8. Decoding is atomic on failure: whenever UnmarshalText returns an error, the value
  behind the receiver after the call is the value it held before the call.
\<close>

theorem unmarshal_failure_keeps_receiver:
  "snd (UnmarshalText t text) = Some e \<Longrightarrow> fst (UnmarshalText t text) = t"
  by (simp add: UnmarshalText_def split: if_splits)

theorem unmarshal_failure_keeps_receiver_witness:
  "snd (UnmarshalText Count ''GAUGE'')
     = Some (Errorf ''invalid metric data type %q'' (Q ''GAUGE''))
   \<and> fst (UnmarshalText Count ''GAUGE'') = Count"
proof -
  have h: "snd (UnmarshalText Count ''GAUGE'')
      = Some (Errorf ''invalid metric data type %q'' (Q ''GAUGE''))"
    by (simp add: UnmarshalText_def)
  show ?thesis using h unmarshal_failure_keeps_receiver [OF h] by simp
qed

text \<open>
  C9. Gauge has ordinal 0 and Count ordinal 1, so the zero value of the integer type,
  which a default-initialised MetricDataType holds, is Gauge, and it encodes to "gauge"
  with no error.
\<close>

theorem zero_value_is_gauge:
  "Gauge = 0 \<and> Count = 1 \<and> MarshalText 0 = Inr ''gauge''"
  by (simp add: MarshalText_def Gauge_def Count_def)

section \<open>Properties of the Consumer interface\<close>

text \<open>
  C7. A type implements Consumer exactly when it implements all three of
  TimeSeriesConsumer, SketchConsumer and APMStatsConsumer; a type that misses one of the
  three does not implement Consumer.
\<close>

theorem consumer_is_all_three:
  "implements T Consumer =
     (implements T TimeSeriesConsumer \<and> implements T SketchConsumer
      \<and> implements T APMStatsConsumer)"
  by (simp add: implements_def Consumer_def)

theorem consumer_is_all_three_witness:
  "implements {ConsumeTimeSeries, ConsumeSketch, ConsumeAPMStats} Consumer
   \<and> implements {ConsumeTimeSeries, ConsumeSketch} TimeSeriesConsumer
   \<and> implements {ConsumeTimeSeries, ConsumeSketch} SketchConsumer
   \<and> \<not> implements {ConsumeTimeSeries, ConsumeSketch} APMStatsConsumer
   \<and> \<not> implements {ConsumeTimeSeries, ConsumeSketch} Consumer"
  using consumer_is_all_three [of "{ConsumeTimeSeries, ConsumeSketch, ConsumeAPMStats}"]
    consumer_is_all_three [of "{ConsumeTimeSeries, ConsumeSketch}"]
  by (simp add: implements_def TimeSeriesConsumer_def SketchConsumer_def APMStatsConsumer_def
      ConsumeTimeSeries_def ConsumeSketch_def ConsumeAPMStats_def)

section \<open>Properties of the SBOM stub\<close>

text \<open>
  C10. In the build with containerd and without trivy, startSBOMCollection returns a nil
  error on every collector and leaves the collector as it was.
\<close>

theorem startSBOMCollection_nil:
  "startSBOMCollection c = (c, None)"
  by (simp add: startSBOMCollection_def)

end
